theory Spec2Isabelle
  imports Main "HOL-Library.AList" "HOL-Library.Sublist"
begin

section \<open>The file system the run-directory utilities act on\<close>

text \<open>
  The module \<^verbatim>\<open>oasislmf/model_execution/bin.py\<close> is a sequence of calls into
  \<^verbatim>\<open>os\<close>, \<open>os.path\<close>, \<open>shutil\<close>, \<open>glob\<close>, \<open>tarfile\<close> and \<open>subprocess\<close>.
  Its state is the file system, which is passed explicitly.

  A path is the list of its components below the root, so \<open>os.path.join(d, n)\<close> for a
  single component \<open>n\<close> is \<open>d @ [n]\<close>. The file system is an association list from the
  places of its entries to nodes, in directory-listing order; the root is a directory
  and has no entry. Exceptions are values: every function that can raise returns
  \<open>error + 'a\<close>, and the state a raising call leaves behind is not part of the result.
  The exception hierarchy is that of Python 3, where \<open>IOError\<close> is \<open>OSError\<close> and
  \<open>shutil.Error\<close> is a subclass of it. A character is a code point below 256.
\<close>

type_synonym path = "string list"

datatype content = Raw string | Tar "(path \<times> string option) list"
  \<comment> \<open>a tar archive lists its members by relative path: \<open>Some\<close> bytes for a regular file,
      \<open>None\<close> for a directory\<close>

datatype node = File content | Dir | Symlink path

type_synonym fs = "(path \<times> node) list"

datatype errno = ENOENT | EEXIST | ENOTDIR | EISDIR | ELOOP | ENOSYS | ENOTEMPTY | EINVAL

datatype pyexc =
    OSError errno path
  | ShutilError string
  | ReadError path
  | CalledProcessError string
  | RecursionError

datatype error =
    OasisException string
  | OasisExceptionFrom pyexc
  | Raised pyexc

fun path_str :: "path \<Rightarrow> string" where
  "path_str [] = ''/''"
| "path_str [c] = CHR ''/'' # c"
| "path_str (c # cs) = CHR ''/'' # c @ path_str cs"

text \<open>
  The operating system resolves a path one component at a time, from the root: an empty
  component and \<open>.\<close> stay where they are, \<open>..\<close> goes to the parent, a directory is
  entered, and a symbolic link is replaced by its target, which is an absolute path. The
  link in the last component is followed or not, as the call asks. Linux gives up after
  following 40 links. The result is the place of the entry, or the place where the last
  component would be created in an existing directory.
\<close>

definition max_links :: nat where
  "max_links = 40"

fun walk :: "nat \<Rightarrow> fs \<Rightarrow> bool \<Rightarrow> path \<Rightarrow> path \<Rightarrow> errno + path" where
  "walk n fs follow_last cur [] = Inr cur"
| "walk n fs follow_last cur (c # cs) =
     (if c = [] \<or> c = ''.'' then walk n fs follow_last cur cs
      else if c = ''..'' then walk n fs follow_last (butlast cur) cs
      else case map_of fs (cur @ [c]) of
             None \<Rightarrow> if cs = [] then Inr (cur @ [c]) else Inl ENOENT
           | Some (File _) \<Rightarrow> if cs = [] then Inr (cur @ [c]) else Inl ENOTDIR
           | Some Dir \<Rightarrow> walk n fs follow_last (cur @ [c]) cs
           | Some (Symlink t) \<Rightarrow>
               if cs = [] \<and> \<not> follow_last then Inr (cur @ [c])
               else if n = 0 then Inl ELOOP
               else walk (n - 1) fs follow_last [] (t @ cs))"

definition resolve :: "fs \<Rightarrow> path \<Rightarrow> errno + path" where
  "resolve fs p = walk max_links fs True [] p"

definition lresolve :: "fs \<Rightarrow> path \<Rightarrow> errno + path" where
  \<comment> \<open>as \<open>resolve\<close>, for the calls that act on a link itself\<close>
  "lresolve fs p = walk max_links fs False [] p"

definition node_at :: "fs \<Rightarrow> path \<Rightarrow> node option" where
  "node_at fs q = (if q = [] then Some Dir else map_of fs q)"

definition errno_at :: "errno + path \<Rightarrow> errno" where
  \<comment> \<open>the error of a look-up that found nothing\<close>
  "errno_at r = (case r of Inl e \<Rightarrow> e | Inr q \<Rightarrow> ENOENT)"

definition stat :: "fs \<Rightarrow> path \<Rightarrow> node option" where
  "stat fs p = (case resolve fs p of Inl e \<Rightarrow> None | Inr q \<Rightarrow> node_at fs q)"

definition lstat :: "fs \<Rightarrow> path \<Rightarrow> node option" where
  "lstat fs p = (case lresolve fs p of Inl e \<Rightarrow> None | Inr q \<Rightarrow> node_at fs q)"

definition path_exists :: "fs \<Rightarrow> path \<Rightarrow> bool" where
  \<comment> \<open>\<open>os.path.exists\<close>: false for a dangling link\<close>
  "path_exists fs p = (stat fs p \<noteq> None)"

definition lexists :: "fs \<Rightarrow> path \<Rightarrow> bool" where
  "lexists fs p = (lstat fs p \<noteq> None)"

definition isdir :: "fs \<Rightarrow> path \<Rightarrow> bool" where
  "isdir fs p = (stat fs p = Some Dir)"

definition listdir :: "fs \<Rightarrow> path \<Rightarrow> string list" where
  \<comment> \<open>the names in a directory; nothing where there is no directory\<close>
  "listdir fs d =
     (case resolve fs d of
        Inl e \<Rightarrow> []
      | Inr q \<Rightarrow> if node_at fs q = Some Dir
                 then [last p. (p, _) \<leftarrow> fs, p \<noteq> [] \<and> butlast p = q]
                 else [])"

definition read_file :: "fs \<Rightarrow> path \<Rightarrow> pyexc + content" where
  "read_file fs p =
     (case stat fs p of
        None \<Rightarrow> Inl (OSError (errno_at (resolve fs p)) p)
      | Some (File c) \<Rightarrow> Inr c
      | Some Dir \<Rightarrow> Inl (OSError EISDIR p)
      | Some (Symlink _) \<Rightarrow> Inl (OSError ELOOP p))"

definition write_file :: "fs \<Rightarrow> path \<Rightarrow> content \<Rightarrow> pyexc + fs" where
  \<comment> \<open>open for writing, creating or truncating, through links\<close>
  "write_file fs p c =
     (case resolve fs p of
        Inl e \<Rightarrow> Inl (OSError e p)
      | Inr q \<Rightarrow>
          (case node_at fs q of
             None \<Rightarrow> Inr (AList.update q (File c) fs)
           | Some (File _) \<Rightarrow> Inr (AList.update q (File c) fs)
           | Some Dir \<Rightarrow> Inl (OSError EISDIR p)
           | Some (Symlink _) \<Rightarrow> Inl (OSError ELOOP p)))"

definition copyfile :: "fs \<Rightarrow> path \<Rightarrow> path \<Rightarrow> pyexc + fs" where
  \<comment> \<open>\<open>shutil.copyfile(src, dst)\<close>\<close>
  "copyfile fs src dst =
     (if path_exists fs src \<and> path_exists fs dst \<and> resolve fs src = resolve fs dst
      then Inl (ShutilError (path_str src @ '' and '' @ path_str dst @ '' are the same file''))
      else case read_file fs src of
             Inl e \<Rightarrow> Inl e
           | Inr c \<Rightarrow> write_file fs dst c)"

definition remove :: "fs \<Rightarrow> path \<Rightarrow> pyexc + fs" where
  \<comment> \<open>\<open>os.remove\<close>: unlinks a file or a link, refuses a directory\<close>
  "remove fs p =
     (case lresolve fs p of
        Inl e \<Rightarrow> Inl (OSError e p)
      | Inr q \<Rightarrow>
          (case node_at fs q of
             None \<Rightarrow> Inl (OSError ENOENT p)
           | Some Dir \<Rightarrow> Inl (OSError EISDIR p)
           | Some _ \<Rightarrow> Inr (AList.delete q fs)))"

definition mkdir :: "fs \<Rightarrow> path \<Rightarrow> pyexc + fs" where
  \<comment> \<open>\<open>os.mkdir\<close>\<close>
  "mkdir fs p =
     (case lresolve fs p of
        Inl e \<Rightarrow> Inl (OSError e p)
      | Inr q \<Rightarrow> if node_at fs q \<noteq> None then Inl (OSError EEXIST p)
                 else Inr (AList.update q Dir fs))"

section \<open>The file registry\<close>

text \<open>
  \<^verbatim>\<open>from .files import TAR_FILE, INPUT_FILES, GUL_INPUT_FILES, IL_INPUT_FILES\<close>:
  the tables of \<^verbatim>\<open>files.py\<close> are parameters of the functions that read them. A table is
  a dictionary from a key to an entry with a name, a type and a conversion tool, kept
  here in its iteration order.
\<close>

record input_file =
  name :: string
  ftype :: string
  conversion_tool :: string

type_synonym registry = "(string \<times> input_file) list"

definition viewvalues :: "registry \<Rightarrow> input_file list" where
  "viewvalues r = map snd r"


section \<open>Exceptions in sequence\<close>

definition bind_err :: "error + 'a \<Rightarrow> ('a \<Rightarrow> error + 'b) \<Rightarrow> error + 'b" where
  "bind_err r f = (case r of Inl e \<Rightarrow> Inl e | Inr x \<Rightarrow> f x)"

definition raising :: "pyexc + 'a \<Rightarrow> error + 'a" where
  \<comment> \<open>a library call whose exception, if any, propagates\<close>
  "raising r = (case r of Inl e \<Rightarrow> Inl (Raised e) | Inr x \<Rightarrow> Inr x)"

fun is_oserror :: "pyexc \<Rightarrow> bool" where
  "is_oserror (OSError _ _) = True"
| "is_oserror (ShutilError _) = True"
| "is_oserror (ReadError _) = False"
| "is_oserror (CalledProcessError _) = False"
| "is_oserror RecursionError = False"

definition except_oserror :: "error + 'a \<Rightarrow> error + 'a" where
  \<comment> \<open>\<^verbatim>\<open>except OSError as e: raise OasisException(e)\<close>\<close>
  "except_oserror r =
     (case r of
        Inl (Raised e) \<Rightarrow> if is_oserror e then Inl (OasisExceptionFrom e) else Inl (Raised e)
      | _ \<Rightarrow> r)"

section \<open>Static binary inputs: \<open>prepare_model_run_inputs\<close>\<close>

definition lower_char :: "char \<Rightarrow> char" where
  \<comment> \<open>the lower-case mapping of Unicode on the code points below 256\<close>
  "lower_char c =
     (case map_of
             (zip (''ABCDEFGHIJKLMNOPQRSTUVWXYZ''
                    @ [CHR 0xC0, CHR 0xC1, CHR 0xC2, CHR 0xC3, CHR 0xC4, CHR 0xC5, CHR 0xC6,
                       CHR 0xC7, CHR 0xC8, CHR 0xC9, CHR 0xCA, CHR 0xCB, CHR 0xCC, CHR 0xCD,
                       CHR 0xCE, CHR 0xCF, CHR 0xD0, CHR 0xD1, CHR 0xD2, CHR 0xD3, CHR 0xD4,
                       CHR 0xD5, CHR 0xD6, CHR 0xD8, CHR 0xD9, CHR 0xDA, CHR 0xDB, CHR 0xDC,
                       CHR 0xDD, CHR 0xDE])
                  (''abcdefghijklmnopqrstuvwxyz''
                    @ [CHR 0xE0, CHR 0xE1, CHR 0xE2, CHR 0xE3, CHR 0xE4, CHR 0xE5, CHR 0xE6,
                       CHR 0xE7, CHR 0xE8, CHR 0xE9, CHR 0xEA, CHR 0xEB, CHR 0xEC, CHR 0xED,
                       CHR 0xEE, CHR 0xEF, CHR 0xF0, CHR 0xF1, CHR 0xF2, CHR 0xF3, CHR 0xF4,
                       CHR 0xF5, CHR 0xF6, CHR 0xF8, CHR 0xF9, CHR 0xFA, CHR 0xFB, CHR 0xFC,
                       CHR 0xFD, CHR 0xFE])) c of
        Some l \<Rightarrow> l
      | None \<Rightarrow> c)"

definition format_setting :: "string \<Rightarrow> string" where
  \<comment> \<open>\<^verbatim>\<open>setting_val.replace(' ', '_').lower()\<close>\<close>
  "format_setting v = map lower_char (map (\<lambda>c. if c = CHR '' '' then CHR ''_'' else c) v)"

fun split_sep :: "string \<Rightarrow> string list" where
  \<comment> \<open>the components of a relative path name, an empty one between two slashes\<close>
  "split_sep [] = [[]]"
| "split_sep (c # s) =
     (if c = CHR ''/'' then [] # split_sep s
      else case split_sep s of w # ws \<Rightarrow> (c # w) # ws | [] \<Rightarrow> [[c]])"

text \<open>
  \<^verbatim>\<open>_prepare_input_bin(run_dir, bin_name, model_settings, setting_key=None, ri=False)\<close>.
  The settings are a dictionary from strings to strings; \<open>setting_key\<close> is \<open>None\<close> or a
  key. \<open>not setting_val\<close> holds for \<open>None\<close> and for the empty string. \<open>bin_name\<close> is one of
  four role names, which are single components; a setting value may hold a slash, and
  then names a file further down.
\<close>

definition prepare_input_bin ::
  "fs \<Rightarrow> path \<Rightarrow> string \<Rightarrow> (string \<rightharpoonup> string) \<Rightarrow> string option \<Rightarrow> bool \<Rightarrow> error + fs" where
  "prepare_input_bin fs run_dir bin_name model_settings setting_key ri =
     (let bin_fp = run_dir @ [''input'', bin_name @ ''.bin''] in
      if \<not> path_exists fs bin_fp then
        let setting_val = (case setting_key of None \<Rightarrow> None | Some k \<Rightarrow> model_settings k);
            model_data_bin_fp =
              (if setting_val = None \<or> setting_val = Some []
               then run_dir @ [''static'', bin_name @ ''.bin'']
               else run_dir @ [''static'']
                      @ split_sep (bin_name @ ''_'' @ format_setting (the setting_val) @ ''.bin''))
        in if \<not> path_exists fs model_data_bin_fp
           then Inl (OasisException
                  (''Could not find '' @ bin_name @ '' data file: '' @ path_str model_data_bin_fp))
           else raising (copyfile fs model_data_bin_fp bin_fp)
      else Inr fs)"

definition prepare_model_run_inputs ::
  "(string \<rightharpoonup> (string \<rightharpoonup> string)) \<Rightarrow> fs \<Rightarrow> path \<Rightarrow> bool \<Rightarrow> error + fs" where
  "prepare_model_run_inputs analysis_settings fs run_dir ri =
     except_oserror
       (let model_settings =
              (case analysis_settings ''model_settings'' of None \<Rightarrow> Map.empty | Some m \<Rightarrow> m)
        in bind_err (prepare_input_bin fs run_dir ''events'' model_settings (Some ''event_set'') ri)
             (\<lambda>fs1. bind_err (prepare_input_bin fs1 run_dir ''returnperiods'' model_settings None ri)
             (\<lambda>fs2. bind_err
                      (prepare_input_bin fs2 run_dir ''occurrence'' model_settings
                         (Some ''event_occurrence_id'') ri)
             (\<lambda>fs3. if path_exists fs3 (run_dir @ [''static'', ''periods.bin''])
                    then prepare_input_bin fs3 run_dir ''periods'' model_settings None ri
                    else Inr fs3))))"

text \<open>
  The same operation in the words of its specification, to compare the code with. For a
  role whose \<open>input/<role>.bin\<close> does not exist yet, the expected source is
  \<open>static/<role>.bin\<close> when the role's setting has no value or the empty one, and else
  \<open>static/<role>_<v>.bin\<close>, \<open>v\<close> being the value with spaces replaced by underscores and in
  lower case; a missing source is an error that names it, and a source that is there is
  copied to \<open>input/<role>.bin\<close>.
\<close>

definition expected_static_source :: "path \<Rightarrow> string \<Rightarrow> string option \<Rightarrow> path" where
  "expected_static_source run_dir role v =
     (case v of
        None \<Rightarrow> run_dir @ [''static'', role @ ''.bin'']
      | Some s \<Rightarrow>
          if s = [] then run_dir @ [''static'', role @ ''.bin'']
          else run_dir @ [''static''] @ split_sep (role @ ''_'' @ format_setting s @ ''.bin''))"

definition materialize_static :: "fs \<Rightarrow> path \<Rightarrow> string \<Rightarrow> string option \<Rightarrow> error + fs" where
  "materialize_static fs run_dir role v =
     (if path_exists fs (run_dir @ [''input'', role @ ''.bin'']) then Inr fs
      else if \<not> path_exists fs (expected_static_source run_dir role v)
      then Inl (OasisException
             (''Could not find '' @ role @ '' data file: ''
                @ path_str (expected_static_source run_dir role v)))
      else raising (copyfile fs (expected_static_source run_dir role v)
                      (run_dir @ [''input'', role @ ''.bin''])))"

section \<open>Checking an inputs directory\<close>

definition required_names :: "registry \<Rightarrow> bool \<Rightarrow> string list" where
  \<comment> \<open>the generator \<open>input_files\<close> of \<^verbatim>\<open>_check_each_inputs_directory\<close>\<close>
  "required_names INPUT_FILES do_il =
     (if do_il
      then [name f. f \<leftarrow> viewvalues INPUT_FILES, ftype f \<noteq> ''optional'']
      else [name f. f \<leftarrow> viewvalues INPUT_FILES, ftype f \<notin> set [''optional'', ''il'']])"

fun check_each_file :: "fs \<Rightarrow> path \<Rightarrow> bool \<Rightarrow> string list \<Rightarrow> error + unit" where
  "check_each_file fs directory_to_check check_binaries [] = Inr ()"
| "check_each_file fs directory_to_check check_binaries (input_file # rest) =
     (if \<not> path_exists fs (directory_to_check @ [input_file @ ''.csv''])
      then Inl (OasisException
             (''Failed to find '' @ path_str (directory_to_check @ [input_file @ ''.csv''])))
      else if check_binaries \<and> path_exists fs (directory_to_check @ [input_file @ ''.bin''])
      then Inl (OasisException
             (''Binary file already exists: ''
                @ path_str (directory_to_check @ [input_file @ ''.bin''])))
      else check_each_file fs directory_to_check check_binaries rest)"

definition check_each_inputs_directory ::
  "registry \<Rightarrow> fs \<Rightarrow> path \<Rightarrow> bool \<Rightarrow> bool \<Rightarrow> error + unit" where
  "check_each_inputs_directory INPUT_FILES fs directory_to_check do_il check_binaries =
     check_each_file fs directory_to_check check_binaries (required_names INPUT_FILES do_il)"

section \<open>Checking a tar file of binaries\<close>

fun member_name :: "path \<Rightarrow> string" where
  "member_name [] = []"
| "member_name [c] = c"
| "member_name (c # cs) = c @ CHR ''/'' # member_name cs"

definition tarfile_open :: "fs \<Rightarrow> path \<Rightarrow> pyexc + (path \<times> string option) list" where
  "tarfile_open fs p =
     (case read_file fs p of
        Inl e \<Rightarrow> Inl e
      | Inr (Raw _) \<Rightarrow> Inl (ReadError p)
      | Inr (Tar members) \<Rightarrow> Inr members)"

definition getmember :: "(path \<times> string option) list \<Rightarrow> string \<Rightarrow> (path \<times> string option) option" where
  \<comment> \<open>\<open>None\<close> is Python's \<open>KeyError\<close>\<close>
  "getmember tar n = find (\<lambda>m. member_name (fst m) = n) (rev tar)"

fun check_each_member ::
  "(path \<times> string option) list \<Rightarrow> path \<Rightarrow> string list \<Rightarrow> error + bool" where
  "check_each_member tar tar_file_path [] = Inr True"
| "check_each_member tar tar_file_path (member # rest) =
     (case getmember tar member of
        None \<Rightarrow> Inl (OasisException
                 (member @ '' is missing from the tar file '' @ path_str tar_file_path @ ''.''))
      | Some _ \<Rightarrow> check_each_member tar tar_file_path rest)"

definition check_binary_tar_file ::
  "registry \<Rightarrow> registry \<Rightarrow> fs \<Rightarrow> path \<Rightarrow> bool \<Rightarrow> error + bool" where
  "check_binary_tar_file GUL_INPUT_FILES IL_INPUT_FILES fs tar_file_path check_il =
     (let expected_members =
            [name f @ ''.bin''. f \<leftarrow> viewvalues GUL_INPUT_FILES]
            @ (if check_il then [name f @ ''.bin''. f \<leftarrow> viewvalues IL_INPUT_FILES] else [])
      in bind_err (raising (tarfile_open fs tar_file_path))
           (\<lambda>tar. check_each_member tar tar_file_path expected_members))"

section \<open>Cleaning a directory of binaries\<close>



section \<open>Globbing\<close>

text \<open>
  \<open>glob.glob\<close> takes the whole path name for a pattern. Where no component has one of
  the characters \<open>*\<close>, \<open>?\<close> and \<open>[\<close>, it only asks whether the path exists. Otherwise it
  expands the directory part, if that has such a character, and in every directory found
  it looks for the last component: by name if that is plain, and else by filtering the
  directory listing through \<open>fnmatch\<close>, hiding the names that begin with a dot from a
  pattern that does not. \<open>fnmatch\<close> knows \<open>*\<close>, \<open>?\<close> and bracketed sets with ranges; every
  other character, the backslash included, stands for itself.
\<close>

datatype glob_tok = Star | Quest | CharSet bool "(char \<times> char) list" | Lit char

definition has_magic :: "string \<Rightarrow> bool" where
  "has_magic s = (\<exists>c \<in> set s. c \<in> set ''*?['')"

definition set_end :: "string \<Rightarrow> nat option" where
  \<comment> \<open>the index of the bracket closing a set, in the text after the opening one\<close>
  "set_end pat =
     (let j0 = (if pat \<noteq> [] \<and> hd pat = CHR ''!'' then 1 else 0);
          j1 = (if j0 < length pat \<and> pat ! j0 = CHR '']'' then j0 + 1 else j0);
          j = j1 + length (takeWhile (\<lambda>c. c \<noteq> CHR '']'') (drop j1 pat))
      in if j \<ge> length pat then None else Some j)"

fun set_items :: "string \<Rightarrow> (char \<times> char) list" where
  "set_items (a # b # c # rest) =
     (if b = CHR ''-'' then (a, c) # set_items rest else (a, a) # set_items (b # c # rest))"
| "set_items (a # rest) = (a, a) # set_items rest"
| "set_items [] = []"

fun translate :: "string \<Rightarrow> glob_tok list" where
  "translate [] = []"
| "translate (c # pat) =
     (if c = CHR ''*'' then Star # translate pat
      else if c = CHR ''?'' then Quest # translate pat
      else if c = CHR ''['' then
        (case set_end pat of
           None \<Rightarrow> Lit c # translate pat
         | Some j \<Rightarrow>
             (let stuff = take j pat
              in (if stuff \<noteq> [] \<and> hd stuff = CHR ''!''
                  then CharSet True (set_items (tl stuff))
                  else CharSet False (set_items stuff))
                 # translate (drop (Suc j) pat)))
      else Lit c # translate pat)"

definition in_set_items :: "char \<Rightarrow> (char \<times> char) list \<Rightarrow> bool" where
  "in_set_items c items =
     (\<exists>(a, b) \<in> set items. (of_char a :: nat) \<le> of_char c \<and> (of_char c :: nat) \<le> of_char b)"

fun tok_match :: "glob_tok list \<Rightarrow> string \<Rightarrow> bool" where
  "tok_match [] s = (s = [])"
| "tok_match (Star # ts) [] = tok_match ts []"
| "tok_match (Star # ts) (c # s) = (tok_match ts (c # s) \<or> tok_match (Star # ts) s)"
| "tok_match (Quest # ts) [] = False"
| "tok_match (Quest # ts) (c # s) = tok_match ts s"
| "tok_match (CharSet neg items # ts) [] = False"
| "tok_match (CharSet neg items # ts) (c # s) = ((in_set_items c items \<noteq> neg) \<and> tok_match ts s)"
| "tok_match (Lit a # ts) [] = False"
| "tok_match (Lit a # ts) (c # s) = (a = c \<and> tok_match ts s)"

definition fnmatch :: "string \<Rightarrow> string \<Rightarrow> bool" where
  "fnmatch n pat = tok_match (translate pat) n"

definition ishidden :: "string \<Rightarrow> bool" where
  "ishidden n = (n \<noteq> [] \<and> hd n = CHR ''.'')"

definition glob1 :: "fs \<Rightarrow> path \<Rightarrow> string \<Rightarrow> string list" where
  "glob1 fs dirname pattern =
     [n. n \<leftarrow> listdir fs dirname, ishidden pattern \<or> \<not> ishidden n, fnmatch n pattern]"

definition glob0 :: "fs \<Rightarrow> path \<Rightarrow> string \<Rightarrow> string list" where
  "glob0 fs dirname basename =
     (if basename = [] then (if isdir fs dirname then [basename] else [])
      else if lexists fs (dirname @ [basename]) then [basename] else [])"

fun iglob :: "fs \<Rightarrow> string list \<Rightarrow> path list" where
  \<comment> \<open>the components of the path name are given last first\<close>
  "iglob fs [] = (if isdir fs [] then [[]] else [])"
| "iglob fs (basename # rev_dirname) =
     (let dirname = rev rev_dirname;
          pathname = dirname @ [basename]
      in if \<not> (\<exists>c \<in> set pathname. has_magic c)
         then (if basename \<noteq> []
               then (if lexists fs pathname then [pathname] else [])
               else (if isdir fs dirname then [pathname] else []))
         else let dirs = (if \<exists>c \<in> set dirname. has_magic c then iglob fs rev_dirname
                          else [dirname])
              in [d @ [n]. d \<leftarrow> dirs,
                           n \<leftarrow> (if has_magic basename then glob1 fs d basename
                                 else glob0 fs d basename)])"

definition glob :: "fs \<Rightarrow> path \<Rightarrow> string \<Rightarrow> path list" where
  \<comment> \<open>\<open>glob.glob(os.path.join(dirname, pat))\<close> for a pattern \<open>pat\<close> of one component\<close>
  "glob fs dirname pat = iglob fs (rev (dirname @ [pat]))"

section \<open>Checking an inputs directory and its reinsurance layers\<close>

fun check_each_ri_directory :: "registry \<Rightarrow> fs \<Rightarrow> bool \<Rightarrow> path list \<Rightarrow> error + unit" where
  "check_each_ri_directory INPUT_FILES fs check_binaries [] = Inr ()"
| "check_each_ri_directory INPUT_FILES fs check_binaries (ri_directory_to_check # rest) =
     bind_err (check_each_inputs_directory INPUT_FILES fs ri_directory_to_check True check_binaries)
       (\<lambda>_. check_each_ri_directory INPUT_FILES fs check_binaries rest)"

definition check_inputs_directory ::
  "registry \<Rightarrow> fs \<Rightarrow> path \<Rightarrow> bool \<Rightarrow> bool \<Rightarrow> bool \<Rightarrow> error + unit" where
  "check_inputs_directory INPUT_FILES fs directory_to_check do_il do_ri check_binaries =
     bind_err (check_each_inputs_directory INPUT_FILES fs directory_to_check do_il check_binaries)
       (\<lambda>_. if do_ri
             then check_each_ri_directory INPUT_FILES fs check_binaries
                    (glob fs directory_to_check (''RI_'' @ [CHR 0x5C] @ ''d+$''))
             else Inr ())"

section \<open>Converting the CSV files\<close>









section \<open>Preparing the run directory\<close>

text \<open>
  The library calls of \<^verbatim>\<open>prepare_model_run_directory\<close>. A directory tree is the set of
  entries whose place extends the place of its root; a rename rewrites that prefix.
  Source and destination of a move are on one file system, so that the move is a rename.
  Whether the platform can create symbolic links is a parameter of the model.
  \<open>copytree\<close> copies what a link inside the tree points to, and calls itself for every
  directory it meets, up to the interpreter's recursion limit.
\<close>

definition bind_exc :: "pyexc + 'a \<Rightarrow> ('a \<Rightarrow> pyexc + 'b) \<Rightarrow> pyexc + 'b" where
  "bind_exc r f = (case r of Inl e \<Rightarrow> Inl e | Inr x \<Rightarrow> f x)"

fun path_mkdir :: "fs \<Rightarrow> string list \<Rightarrow> pyexc + fs" where
  \<comment> \<open>\<open>Path(p).mkdir(parents=True, exist_ok=True)\<close>, the components of \<open>p\<close> given last first:
      the missing parents are made when the first attempt finds none\<close>
  "path_mkdir fs [] = (if isdir fs [] then Inr fs else mkdir fs [])"
| "path_mkdir fs (c # rev_parent) =
     (let p = rev (c # rev_parent)
      in case mkdir fs p of
           Inr fs' \<Rightarrow> Inr fs'
         | Inl (OSError ENOENT x) \<Rightarrow>
             (case path_mkdir fs rev_parent of
                Inl e \<Rightarrow> Inl e
              | Inr fs1 \<Rightarrow>
                  (case mkdir fs1 p of
                     Inr fs2 \<Rightarrow> Inr fs2
                   | Inl (OSError ENOENT y) \<Rightarrow> Inl (OSError ENOENT y)
                   | Inl e \<Rightarrow> if isdir fs1 p then Inr fs1 else Inl e))
         | Inl e \<Rightarrow> if isdir fs p then Inr fs else Inl e)"

definition mkdir_p :: "fs \<Rightarrow> path \<Rightarrow> pyexc + fs" where
  "mkdir_p fs p = path_mkdir fs (rev p)"

fun os_makedirs :: "fs \<Rightarrow> string list \<Rightarrow> pyexc + fs" where
  \<comment> \<open>\<open>os.makedirs(p)\<close>, the components of \<open>p\<close> given last first: the leaf must not exist\<close>
  "os_makedirs fs [] = mkdir fs []"
| "os_makedirs fs (c # rev_head) =
     bind_exc (if \<not> path_exists fs (rev rev_head)
               then (case os_makedirs fs rev_head of
                       Inl (OSError EEXIST x) \<Rightarrow> Inr fs
                     | r \<Rightarrow> r)
               else Inr fs)
       (\<lambda>fs1. mkdir fs1 (rev (c # rev_head)))"

definition makedirs :: "fs \<Rightarrow> path \<Rightarrow> pyexc + fs" where
  "makedirs fs p = os_makedirs fs (rev p)"

fun mkdir_each :: "fs \<Rightarrow> path list \<Rightarrow> pyexc + fs" where
  "mkdir_each fs [] = Inr fs"
| "mkdir_each fs (p # ps) = bind_exc (mkdir_p fs p) (\<lambda>fs'. mkdir_each fs' ps)"

fun extract_member :: "fs \<Rightarrow> path \<Rightarrow> path \<times> string option \<Rightarrow> pyexc + fs" where
  \<comment> \<open>a directory that is there already is left as it is\<close>
  "extract_member fs dest (rel, None) =
     bind_exc (if \<not> path_exists fs (butlast (dest @ rel)) then makedirs fs (butlast (dest @ rel))
               else Inr fs)
       (\<lambda>fs1. case mkdir fs1 (dest @ rel) of
                Inl (OSError EEXIST x) \<Rightarrow> Inr fs1
              | r \<Rightarrow> r)"
| "extract_member fs dest (rel, Some bytes) =
     bind_exc (if \<not> path_exists fs (butlast (dest @ rel)) then makedirs fs (butlast (dest @ rel))
               else Inr fs)
       (\<lambda>fs1. write_file fs1 (dest @ rel) (Raw bytes))"

fun extractall :: "fs \<Rightarrow> path \<Rightarrow> (path \<times> string option) list \<Rightarrow> pyexc + fs" where
  "extractall fs dest [] = Inr fs"
| "extractall fs dest (m # ms) =
     bind_exc (extract_member fs dest m) (\<lambda>fs'. extractall fs' dest ms)"

definition os_listdir :: "fs \<Rightarrow> path \<Rightarrow> pyexc + string list" where
  "os_listdir fs p =
     (if isdir fs p then Inr (listdir fs p)
      else Inl (OSError (if path_exists fs p then ENOTDIR else errno_at (resolve fs p)) p))"

fun str_in :: "string \<Rightarrow> string \<Rightarrow> bool" where
  \<comment> \<open>Python's \<open>s in d\<close> on strings\<close>
  "str_in s [] = (s = [])"
| "str_in s (c # d) = (prefix s (c # d) \<or> str_in s d)"

definition re_match_ri :: "string \<Rightarrow> bool" where
  \<comment> \<open>\<^verbatim>\<open>re.match(r'RI_\d+$', p)\<close> on ASCII digits; \<open>$\<close> also matches before a final newline\<close>
  "re_match_ri p =
     (prefix ''RI_'' p
      \<and> (let r = drop 3 p;
              ds = takeWhile (\<lambda>c. c \<in> set ''0123456789'') r;
              rest = dropWhile (\<lambda>c. c \<in> set ''0123456789'') r
          in ds \<noteq> [] \<and> (rest = [] \<or> rest = [CHR 0x0A])))"

definition rename_tree :: "fs \<Rightarrow> path \<Rightarrow> path \<Rightarrow> fs" where
  "rename_tree fs src dst =
     map (\<lambda>(p, n). if prefix src p then (dst @ drop (length src) p, n) else (p, n)) fs"

definition os_rename :: "fs \<Rightarrow> path \<Rightarrow> path \<Rightarrow> pyexc + fs" where
  "os_rename fs src dst =
     (case lresolve fs src of
        Inl e \<Rightarrow> Inl (OSError e src)
      | Inr s \<Rightarrow>
          (case lresolve fs dst of
             Inl e \<Rightarrow> Inl (OSError e dst)
           | Inr d \<Rightarrow>
               if s = [] \<or> map_of fs s = None then Inl (OSError ENOENT src)
               else if s = d then Inr fs
               else if prefix s d then Inl (OSError EINVAL dst)
               else if node_at fs d = Some Dir
               then (if map_of fs s \<noteq> Some Dir then Inl (OSError EISDIR dst)
                     else if listdir fs d \<noteq> [] then Inl (OSError ENOTEMPTY dst)
                     else Inr (rename_tree (AList.delete d fs) s d))
               else if node_at fs d \<noteq> None \<and> map_of fs s = Some Dir
               then Inl (OSError ENOTDIR dst)
               else Inr (rename_tree (AList.delete d fs) s d)))"

definition copy2 :: "fs \<Rightarrow> path \<Rightarrow> path \<Rightarrow> pyexc + fs" where
  \<comment> \<open>\<open>shutil.copy2(src, dst)\<close>; the metadata is not modelled\<close>
  "copy2 fs src dst =
     (if isdir fs dst then copyfile fs src (dst @ [last src]) else copyfile fs src dst)"

definition recursion_limit :: nat where
  "recursion_limit = 1000"

fun copytree :: "nat \<Rightarrow> fs \<Rightarrow> path \<Rightarrow> path \<Rightarrow> pyexc + fs" where
  \<comment> \<open>\<open>shutil.copytree(src, dst)\<close>; an error at an entry makes the call raise \<open>shutil.Error\<close>\<close>
  "copytree 0 fs src dst = Inl RecursionError"
| "copytree (Suc k) fs src dst =
     bind_exc (os_listdir fs src)
       (\<lambda>names. bind_exc (makedirs fs dst)
          (\<lambda>fs1. foldl
                   (\<lambda>r n. bind_exc r
                      (\<lambda>acc. case (if isdir acc (src @ [n])
                                   then copytree k acc (src @ [n]) (dst @ [n])
                                   else copy2 acc (src @ [n]) (dst @ [n])) of
                               Inl e \<Rightarrow>
                                 Inl (if is_oserror e
                                      then ShutilError (''errors while copying '' @ path_str src)
                                      else e)
                             | Inr acc' \<Rightarrow> Inr acc'))
                   (Inr fs1) names))"

definition symlink :: "bool \<Rightarrow> fs \<Rightarrow> path \<Rightarrow> path \<Rightarrow> pyexc + fs" where
  \<comment> \<open>\<open>os.symlink(target, link)\<close> on a platform that has symbolic links, or has not\<close>
  "symlink supported fs target link =
     (if \<not> supported then Inl (OSError ENOSYS link)
      else case lresolve fs link of
             Inl e \<Rightarrow> Inl (OSError e link)
           | Inr q \<Rightarrow> if node_at fs q \<noteq> None then Inl (OSError EEXIST link)
                      else Inr (AList.update q (Symlink target) fs))"

definition islink :: "fs \<Rightarrow> path \<Rightarrow> bool" where
  "islink fs p = (case lstat fs p of Some (Symlink t) \<Rightarrow> True | _ \<Rightarrow> False)"

definition rmtree :: "fs \<Rightarrow> path \<Rightarrow> pyexc + fs" where
  "rmtree fs p =
     (case lresolve fs p of
        Inl e \<Rightarrow> Inl (OSError e p)
      | Inr s \<Rightarrow> if s = [] \<or> map_of fs s \<noteq> Some Dir then Inl (OSError ENOTDIR p)
                 else Inr [(q, n). (q, n) \<leftarrow> fs, \<not> prefix s q])"

definition move :: "fs \<Rightarrow> path \<Rightarrow> path \<Rightarrow> pyexc + fs" where
  \<comment> \<open>\<open>shutil.move(src, dst)\<close>: a rename, and a copy followed by a removal where the
      rename fails\<close>
  "move fs src dst =
     (let real_dst = (if isdir fs dst then dst @ [last src] else dst)
      in if isdir fs dst \<and> path_exists fs real_dst
         then Inl (ShutilError (''Destination path '' @ path_str real_dst @ '' already exists''))
         else case os_rename fs src real_dst of
                Inr fs' \<Rightarrow> Inr fs'
              | Inl e \<Rightarrow>
                  (case lstat fs src of
                     Some (Symlink linkto) \<Rightarrow>
                       bind_exc (symlink True fs linkto real_dst) (\<lambda>fs1. remove fs1 src)
                   | _ \<Rightarrow>
                       if isdir fs src
                       then (if prefix src real_dst
                             then Inl (ShutilError (''Cannot move a directory '' @ path_str src
                                                      @ '' into itself '' @ path_str real_dst))
                             else bind_exc (copytree recursion_limit fs src real_dst)
                                    (\<lambda>fs1. rmtree fs1 src))
                       else bind_exc (copy2 fs src real_dst) (\<lambda>fs1. remove fs1 src)))"

fun move_each :: "fs \<Rightarrow> path \<Rightarrow> path \<Rightarrow> string list \<Rightarrow> pyexc + fs" where
  "move_each fs p run_dir_path [] = Inr fs"
| "move_each fs p run_dir_path (ri_dir # rest) =
     bind_exc (move fs (p @ [ri_dir]) run_dir_path)
       (\<lambda>fs'. move_each fs' p run_dir_path rest)"

fun copy_each :: "fs \<Rightarrow> path \<Rightarrow> path \<Rightarrow> path \<Rightarrow> string list \<Rightarrow> pyexc + fs" where
  "copy_each fs oasis_files_src_path oasis_files_destpath run_dir_path [] = Inr fs"
| "copy_each fs oasis_files_src_path oasis_files_destpath run_dir_path (p # rest) =
     (let src_fp = oasis_files_src_path @ [p]
      in bind_exc
           (if \<not> (re_match_ri p \<or> p = ''ri_layers.json'')
            then copy2 fs src_fp oasis_files_destpath
            else (if re_match_ri p then copytree recursion_limit else copy2)
                   fs src_fp (run_dir_path @ [p]))
           (\<lambda>fs'. copy_each fs' oasis_files_src_path oasis_files_destpath run_dir_path rest))"

fun link_each :: "bool \<Rightarrow> fs \<Rightarrow> path \<Rightarrow> path \<Rightarrow> path list \<Rightarrow> pyexc + fs" where
  "link_each supported fs model_data_src_path model_data_dest_path [] = Inr fs"
| "link_each supported fs model_data_src_path model_data_dest_path (path # rest) =
     (let filename = last path
      in bind_exc
           (case symlink supported fs path (model_data_dest_path @ [filename]) of
              Inr fs' \<Rightarrow> Inr fs'
            | Inl _ \<Rightarrow> copytree recursion_limit fs model_data_src_path
                        (model_data_dest_path @ [filename]))
           (\<lambda>fs'. link_each supported fs' model_data_src_path model_data_dest_path rest))"

text \<open>
  \<^verbatim>\<open>prepare_model_run_directory(run_dir_path, oasis_files_src_path=None, ri=False,
  analysis_settings_json_src_file_path=None, model_data_src_path=None, inputs_archive=None)\<close>.
  An optional path is \<open>None\<close> when it is not given.
\<close>

definition prepare_model_run_directory ::
  "bool \<Rightarrow> fs \<Rightarrow> path \<Rightarrow> path option \<Rightarrow> bool \<Rightarrow> path option \<Rightarrow> path option \<Rightarrow> path option
     \<Rightarrow> error + fs" where
  "prepare_model_run_directory supported fs run_dir_path oasis_files_src_path ri
     analysis_settings_json_src_file_path model_data_src_path inputs_archive =
     except_oserror (raising
       (bind_exc (mkdir_each fs [run_dir_path @ [subdir].
                                   subdir \<leftarrow> [''fifo'', ''output'', ''static'', ''work'']])
       (\<lambda>fs1. bind_exc
          (case inputs_archive of
             None \<Rightarrow>
               if \<not> ri then mkdir_p fs1 (run_dir_path @ [''input'', ''csv''])
               else mkdir_p fs1 (run_dir_path @ [''input''])
           | Some archive \<Rightarrow>
               bind_exc (tarfile_open fs1 archive)
                 (\<lambda>input_tarfile.
                    let p = run_dir_path @ [''input'']
                    in bind_exc (extractall fs1 p input_tarfile)
                         (\<lambda>fs2. bind_exc (os_listdir fs2 p)
                            (\<lambda>names. move_each fs2 p run_dir_path
                                        [d. d \<leftarrow> names, str_in ''RI_'' d]))))
       (\<lambda>fs3.
          let oasis_files_destpath =
                (if \<not> ri then run_dir_path @ [''input'', ''csv''] else run_dir_path @ [''input''])
          in bind_exc
               (case oasis_files_src_path of
                  None \<Rightarrow> Inr fs3
                | Some src \<Rightarrow>
                    if src \<noteq> oasis_files_destpath
                    then bind_exc (os_listdir fs3 src)
                           (\<lambda>names. copy_each fs3 src oasis_files_destpath run_dir_path names)
                    else Inr fs3)
       (\<lambda>fs4. bind_exc
          (case analysis_settings_json_src_file_path of
             None \<Rightarrow> Inr fs4
           | Some src \<Rightarrow> copyfile fs4 src (run_dir_path @ [''analysis_settings.json'']))
       (\<lambda>fs5.
          case model_data_src_path of
            None \<Rightarrow> Inr fs5
          | Some src \<Rightarrow>
              link_each supported fs5 src (run_dir_path @ [''static''])
                (glob fs5 src ''*'')))))))"



section \<open>Facts about the file system\<close>

lemmas fs_eval = path_exists_def lexists_def isdir_def stat_def lstat_def resolve_def
  lresolve_def node_at_def max_links_def

section \<open>The tar file check\<close>

lemma getmember_None_iff: "getmember tar n = None \<longleftrightarrow> n \<notin> member_name ` fst ` set tar"
  by (force simp: getmember_def find_None_iff)

lemma check_each_member_find:
  "check_each_member tar tp ms =
     (case find (\<lambda>m. m \<notin> member_name ` fst ` set tar) ms of
        None \<Rightarrow> Inr True
      | Some m \<Rightarrow> Inl (OasisException
                 (m @ '' is missing from the tar file '' @ path_str tp @ ''.'')))"
proof (induction ms)
  case Nil
  show ?case by simp
next
  case (Cons m ms)
  show ?case
  proof (cases "getmember tar m")
    case None
    then have "m \<notin> member_name ` fst ` set tar" by (simp add: getmember_None_iff)
    with None show ?thesis by simp
  next
    case (Some x)
    then have "\<not> m \<notin> member_name ` fst ` set tar"
      using getmember_None_iff[of tar m] by simp
    with Some Cons.IH show ?thesis by simp
  qed
qed

lemma member_name_nested: "rest \<noteq> [] \<Longrightarrow> CHR ''/'' \<in> set (member_name (c # rest))"
  by (cases rest) auto

text \<open>
  Claim C8. On an archive that opens, \<open>check_binary_tar_file\<close> looks up the names
  \<open>name.bin\<close> of the GUL table, followed by those of the IL table when \<open>check_il\<close> is set,
  and nothing else. It returns \<open>True\<close> when all are members, and otherwise raises the
  error that names the first one that is missing and the archive. Members below a
  directory \<open>RI_n\<close> are never looked at: adding them to the archive does not change the
  result, as long as no name of the tables contains a slash.
\<close>

theorem check_binary_tar_file_base_layer_only:
  assumes "tarfile_open fs tar_file_path = Inr tar"
    and "expected = [name f @ ''.bin''. f \<leftarrow> viewvalues GUL_INPUT_FILES]
                    @ (if check_il then [name f @ ''.bin''. f \<leftarrow> viewvalues IL_INPUT_FILES] else [])"
  shows "check_binary_tar_file GUL_INPUT_FILES IL_INPUT_FILES fs tar_file_path check_il =
           (case find (\<lambda>m. m \<notin> member_name ` fst ` set tar) expected of
              None \<Rightarrow> Inr True
            | Some m \<Rightarrow> Inl (OasisException
                 (m @ '' is missing from the tar file '' @ path_str tar_file_path @ ''.'')))
       \<and> (\<forall>fs2 ri_members.
             (\<forall>e \<in> set expected. CHR ''/'' \<notin> set e)
           \<and> (\<forall>m \<in> set ri_members. \<exists>n rest. fst m = (''RI_'' @ n) # rest \<and> rest \<noteq> [])
           \<and> tarfile_open fs2 tar_file_path = Inr (tar @ ri_members)
           \<longrightarrow> check_binary_tar_file GUL_INPUT_FILES IL_INPUT_FILES fs2 tar_file_path check_il
               = check_binary_tar_file GUL_INPUT_FILES IL_INPUT_FILES fs tar_file_path check_il)"
proof -
  have c: "check_binary_tar_file GUL_INPUT_FILES IL_INPUT_FILES fs' tar_file_path check_il =
           (case find (\<lambda>m. m \<notin> member_name ` fst ` set tar') expected of
              None \<Rightarrow> Inr True
            | Some m \<Rightarrow> Inl (OasisException
                 (m @ '' is missing from the tar file '' @ path_str tar_file_path @ ''.'')))"
    if "tarfile_open fs' tar_file_path = Inr tar'" for fs' tar'
    using that unfolding check_binary_tar_file_def Let_def assms(2)[symmetric]
    by (simp add: bind_err_def raising_def check_each_member_find)
  have "check_binary_tar_file GUL_INPUT_FILES IL_INPUT_FILES fs2 tar_file_path check_il
               = check_binary_tar_file GUL_INPUT_FILES IL_INPUT_FILES fs tar_file_path check_il"
    if e: "\<forall>e \<in> set expected. CHR ''/'' \<notin> set e"
      and r: "\<forall>m \<in> set ri_members. \<exists>n rest. fst m = (''RI_'' @ n) # rest \<and> rest \<noteq> []"
      and o: "tarfile_open fs2 tar_file_path = Inr (tar @ ri_members)"
    for fs2 ri_members
  proof -
    have "(m \<notin> member_name ` fst ` set (tar @ ri_members)) = (m \<notin> member_name ` fst ` set tar)"
      if "m \<in> set expected" for m
    proof -
      from that e have s: "CHR ''/'' \<notin> set m" by blast
      have "m \<notin> member_name ` fst ` set ri_members"
      proof
        assume "m \<in> member_name ` fst ` set ri_members"
        then obtain x where x: "x \<in> set ri_members" "m = member_name (fst x)" by blast
        with r obtain n rest where "fst x = (''RI_'' @ n) # rest" "rest \<noteq> []" by blast
        with x(2) member_name_nested[of rest "''RI_'' @ n"] s show False by simp
      qed
      then show ?thesis by auto
    qed
    then have "find (\<lambda>m. m \<notin> member_name ` fst ` set (tar @ ri_members)) expected
             = find (\<lambda>m. m \<notin> member_name ` fst ` set tar) expected"
      by (intro find_cong) auto
    with c[OF o] c[OF assms(1)] show ?thesis by simp
  qed
  with c[OF assms(1)] show ?thesis by blast
qed

theorem check_binary_tar_file_base_layer_only_witness:
  "check_binary_tar_file
     [(''items'', \<lparr>name = ''items'', ftype = ''gul'', conversion_tool = ''itemtobin''\<rparr>)]
     [(''fm_xref'', \<lparr>name = ''fm_xref'', ftype = ''il'', conversion_tool = ''fmxreftobin''\<rparr>)]
     [([''t.tar''], File (Tar [([''items.bin''], Some ''i'')]))] [''t.tar''] True
   = Inl (OasisException ''fm_xref.bin is missing from the tar file /t.tar.'')
 \<and> check_binary_tar_file
     [(''items'', \<lparr>name = ''items'', ftype = ''gul'', conversion_tool = ''itemtobin''\<rparr>)]
     [(''fm_xref'', \<lparr>name = ''fm_xref'', ftype = ''il'', conversion_tool = ''fmxreftobin''\<rparr>)]
     [([''t.tar''], File (Tar [([''items.bin''], Some ''i''),
                               ([''RI_1'', ''fm_xref.bin''], Some ''x'')]))] [''t.tar''] True
   = Inl (OasisException ''fm_xref.bin is missing from the tar file /t.tar.'')"
proof -
  let ?G = "[(''items'', \<lparr>name = ''items'', ftype = ''gul'', conversion_tool = ''itemtobin''\<rparr>)]"
  let ?I = "[(''fm_xref'', \<lparr>name = ''fm_xref'', ftype = ''il'', conversion_tool = ''fmxreftobin''\<rparr>)]"
  let ?tar = "[([''items.bin''], Some ''i'')]"
  let ?ri = "[([''RI_1'', ''fm_xref.bin''], Some ''x'')]"
  let ?fs = "[([''t.tar''], File (Tar ?tar))]"
  let ?fs2 = "[([''t.tar''], File (Tar (?tar @ ?ri)))]"
  let ?ex = "[''items.bin'', ''fm_xref.bin'']"
  have o: "tarfile_open ?fs [''t.tar''] = Inr ?tar"
    by (simp add: tarfile_open_def read_file_def fs_eval)
  have o2: "tarfile_open ?fs2 [''t.tar''] = Inr (?tar @ ?ri)"
    by (simp add: tarfile_open_def read_file_def fs_eval)
  have x: "?ex = [name f @ ''.bin''. f \<leftarrow> viewvalues ?G]
                    @ (if True then [name f @ ''.bin''. f \<leftarrow> viewvalues ?I] else [])"
    by (simp add: viewvalues_def)
  have s: "\<forall>e \<in> set ?ex. CHR ''/'' \<notin> set e" by simp
  have r: "\<forall>m \<in> set ?ri. \<exists>n rest. fst m = (''RI_'' @ n) # rest \<and> rest \<noteq> []"
    by simp
  note t = check_binary_tar_file_base_layer_only[OF o x]
  from t have a: "check_binary_tar_file ?G ?I ?fs [''t.tar''] True
      = Inl (OasisException ''fm_xref.bin is missing from the tar file /t.tar.'')"
    by simp
  from t s r o2 have "check_binary_tar_file ?G ?I ?fs2 [''t.tar''] True
      = check_binary_tar_file ?G ?I ?fs [''t.tar''] True"
    by blast
  with a show ?thesis by simp
qed

section \<open>The inputs directory check\<close>

lemma check_each_file_csv_present:
  assumes "\<forall>n \<in> set ns. path_exists fs (d @ [n @ ''.csv''])"
  shows "check_each_file fs d True ns =
           (case find (\<lambda>n. path_exists fs (d @ [n @ ''.bin''])) ns of
              None \<Rightarrow> Inr ()
            | Some n \<Rightarrow> Inl (OasisException
                 (''Binary file already exists: '' @ path_str (d @ [n @ ''.bin'']))))"
  using assms by (induction ns) auto

lemma check_inputs_directory_no_ri:
  "check_inputs_directory INPUT_FILES fs d do_il False check_binaries
     = check_each_inputs_directory INPUT_FILES fs d do_il check_binaries"
  by (cases "check_each_inputs_directory INPUT_FILES fs d do_il check_binaries")
     (simp_all add: check_inputs_directory_def bind_err_def)

text \<open>
  Claim C3, as amended. In a directory where every required CSV file exists, the check
  of that directory with \<open>check_binaries\<close> set (this is \<open>check_inputs_directory\<close> without
  reinsurance layers) fails if and only if \<open>name.bin\<close> exists for at least one required
  name. The error is then the one for a binary that already exists, and it names the path
  of the first such binary in the order of the registry.
\<close>

theorem check_inputs_directory_stale_binary:
  assumes "\<forall>n \<in> set (required_names INPUT_FILES do_il). path_exists fs (d @ [n @ ''.csv''])"
  shows "((\<exists>e. check_inputs_directory INPUT_FILES fs d do_il False True = Inl e)
            \<longleftrightarrow> (\<exists>n \<in> set (required_names INPUT_FILES do_il). path_exists fs (d @ [n @ ''.bin''])))
       \<and> check_inputs_directory INPUT_FILES fs d do_il False True =
           (case find (\<lambda>n. path_exists fs (d @ [n @ ''.bin''])) (required_names INPUT_FILES do_il) of
              None \<Rightarrow> Inr ()
            | Some n \<Rightarrow> Inl (OasisException
                 (''Binary file already exists: '' @ path_str (d @ [n @ ''.bin'']))))"
proof -
  let ?ns = "required_names INPUT_FILES do_il"
  let ?P = "\<lambda>n. path_exists fs (d @ [n @ ''.bin''])"
  have c: "check_inputs_directory INPUT_FILES fs d do_il False True =
           (case find ?P ?ns of
              None \<Rightarrow> Inr ()
            | Some n \<Rightarrow> Inl (OasisException
                 (''Binary file already exists: '' @ path_str (d @ [n @ ''.bin'']))))"
    unfolding check_inputs_directory_no_ri check_each_inputs_directory_def
    by (rule check_each_file_csv_present[OF assms])
  have "(\<exists>e. check_inputs_directory INPUT_FILES fs d do_il False True = Inl e)
            \<longleftrightarrow> (\<exists>n \<in> set ?ns. ?P n)"
  proof (cases "find ?P ?ns")
    case None
    then have "\<not> (\<exists>n \<in> set ?ns. ?P n)" by (simp add: find_None_iff)
    with None c show ?thesis by simp
  next
    case (Some n)
    then have "n \<in> set ?ns \<and> ?P n" by (auto simp: find_Some_iff)
    with Some c show ?thesis by auto
  qed
  with c show ?thesis by blast
qed

theorem check_inputs_directory_stale_binary_witness:
  "check_inputs_directory
     [(''items'', \<lparr>name = ''items'', ftype = ''gul'', conversion_tool = ''itemtobin''\<rparr>),
      (''coverages'', \<lparr>name = ''coverages'', ftype = ''gul'', conversion_tool = ''coveragetobin''\<rparr>)]
     [([''d''], Dir), ([''d'', ''items.csv''], File (Raw ''i'')),
      ([''d'', ''coverages.csv''], File (Raw ''c'')), ([''d'', ''coverages.bin''], File (Raw ''b''))]
     [''d''] False False True
   = Inl (OasisException ''Binary file already exists: /d/coverages.bin'')"
proof -
  let ?R = "[(''items'', \<lparr>name = ''items'', ftype = ''gul'', conversion_tool = ''itemtobin''\<rparr>),
      (''coverages'', \<lparr>name = ''coverages'', ftype = ''gul'', conversion_tool = ''coveragetobin''\<rparr>)]"
  let ?fs = "[([''d''], Dir), ([''d'', ''items.csv''], File (Raw ''i'')),
      ([''d'', ''coverages.csv''], File (Raw ''c'')), ([''d'', ''coverages.bin''], File (Raw ''b''))]"
  have n: "required_names ?R False = [''items'', ''coverages'']"
    by (simp add: required_names_def viewvalues_def)
  have h: "\<forall>n \<in> set (required_names ?R False). path_exists ?fs ([''d''] @ [n @ ''.csv''])"
    by (simp add: n fs_eval)
  have f: "find (\<lambda>n. path_exists ?fs ([''d''] @ [n @ ''.bin''])) (required_names ?R False)
           = Some ''coverages''"
    by (simp add: n fs_eval)
  from check_inputs_directory_stale_binary[OF h] f show ?thesis by simp
qed

text \<open>
  The claim as it was stated has the check fail only for a binary next to its CSV file.
  In the directory below no binary exists, and the check fails all the same, for the
  CSV file that is missing.
\<close>

theorem check_inputs_directory_missing_csv_counterexample:
  "check_inputs_directory
     [(''items'', \<lparr>name = ''items'', ftype = ''gul'', conversion_tool = ''itemtobin''\<rparr>)]
     [([''d''], Dir)] [''d''] False False True
   = Inl (OasisException ''Failed to find /d/items.csv'')
 \<and> required_names
     [(''items'', \<lparr>name = ''items'', ftype = ''gul'', conversion_tool = ''itemtobin''\<rparr>)] False
   = [''items'']
 \<and> \<not> path_exists [([''d''], Dir)] [''d'', ''items.bin'']"
  by (simp add: check_inputs_directory_def check_each_inputs_directory_def required_names_def
        viewvalues_def bind_err_def fs_eval)

text \<open>
  Claim C1 asks for the check of every subdirectory \<open>RI_<digits>\<close>. The pattern handed to
  \<open>glob\<close> is the regular expression \<^verbatim>\<open>RI_\d+$\<close>; it has none of the characters \<open>*\<close>,
  \<open>?\<close>, \<open>[\<close>, so \<open>glob\<close> looks for an entry of exactly that name. Below, the layer
  \<open>RI_1\<close> lacks \<open>items.csv\<close>: its own check fails, and the check of the whole directory
  with \<open>do_ri\<close> set succeeds.
\<close>

theorem check_inputs_directory_skips_ri_layer:
  "check_inputs_directory
     [(''items'', \<lparr>name = ''items'', ftype = ''gul'', conversion_tool = ''itemtobin''\<rparr>)]
     [([''d''], Dir), ([''d'', ''items.csv''], File (Raw ''i'')), ([''d'', ''RI_1''], Dir)]
     [''d''] False True True
   = Inr ()
 \<and> check_each_inputs_directory
     [(''items'', \<lparr>name = ''items'', ftype = ''gul'', conversion_tool = ''itemtobin''\<rparr>)]
     [([''d''], Dir), ([''d'', ''items.csv''], File (Raw ''i'')), ([''d'', ''RI_1''], Dir)]
     [''d'', ''RI_1''] True True
   = Inl (OasisException ''Failed to find /d/RI_1/items.csv'')
 \<and> glob [([''d''], Dir), ([''d'', ''items.csv''], File (Raw ''i'')), ([''d'', ''RI_1''], Dir)]
      [''d''] (''RI_'' @ [CHR 0x5C] @ ''d+$'')
   = []"
  by (simp add: check_inputs_directory_def check_each_inputs_directory_def required_names_def
        viewvalues_def bind_err_def fs_eval glob_def has_magic_def)


section \<open>Static binary inputs\<close>

lemma prepare_input_bin_materialize:
  "prepare_input_bin fs run_dir b ms k ri
     = materialize_static fs run_dir b (case k of None \<Rightarrow> None | Some key \<Rightarrow> ms key)"
  by (cases "case k of None \<Rightarrow> None | Some key \<Rightarrow> ms key")
     (simp_all add: prepare_input_bin_def materialize_static_def expected_static_source_def Let_def)




text \<open>
  Claim C6, as amended. \<open>prepare_model_run_inputs\<close> is the static materializer of the
  specification, run for the roles \<open>events\<close> with the setting \<open>event_set\<close>, \<open>returnperiods\<close>
  without a setting, \<open>occurrence\<close> with the setting \<open>event_occurrence_id\<close> and, when
  \<open>static/periods.bin\<close> exists, \<open>periods\<close> without a setting, in this order, each on the
  file system the one before has left: for a role whose \<open>input/<role>.bin\<close> does not
  exist yet, the source is \<open>static/<role>.bin\<close> when the setting is not set or is the
  empty string, and \<open>static/<role>_<v>.bin\<close> otherwise; the operation fails with the error
  that names this path when it does not exist, and copies it to \<open>input/<role>.bin\<close>
  when it does. In particular, when neither \<open>input/events.bin\<close> nor the source expected
  for \<open>events\<close> exists, the operation fails with the error that names that source.
\<close>

theorem prepare_model_run_inputs_static_source:
  "prepare_model_run_inputs analysis_settings fs run_dir ri =
     except_oserror
       (bind_err (materialize_static fs run_dir ''events''
                    (case analysis_settings ''model_settings'' of
                       None \<Rightarrow> None | Some m \<Rightarrow> m ''event_set''))
          (\<lambda>fs1. bind_err (materialize_static fs1 run_dir ''returnperiods'' None)
          (\<lambda>fs2. bind_err (materialize_static fs2 run_dir ''occurrence''
                             (case analysis_settings ''model_settings'' of
                                None \<Rightarrow> None | Some m \<Rightarrow> m ''event_occurrence_id''))
          (\<lambda>fs3. if path_exists fs3 (run_dir @ [''static'', ''periods.bin''])
                 then materialize_static fs3 run_dir ''periods'' None
                 else Inr fs3))))
 \<and> (\<not> path_exists fs (run_dir @ [''input'', ''events.bin''])
      \<and> \<not> path_exists fs (expected_static_source run_dir ''events''
                            (case analysis_settings ''model_settings'' of
                               None \<Rightarrow> None | Some m \<Rightarrow> m ''event_set''))
     \<longrightarrow> prepare_model_run_inputs analysis_settings fs run_dir ri =
           Inl (OasisException
                  (''Could not find events data file: ''
                     @ path_str (expected_static_source run_dir ''events''
                                  (case analysis_settings ''model_settings'' of
                                     None \<Rightarrow> None | Some m \<Rightarrow> m ''event_set'')))))"
proof -
  have e: "prepare_model_run_inputs analysis_settings fs run_dir ri =
     except_oserror
       (bind_err (materialize_static fs run_dir ''events''
                    (case analysis_settings ''model_settings'' of
                       None \<Rightarrow> None | Some m \<Rightarrow> m ''event_set''))
          (\<lambda>fs1. bind_err (materialize_static fs1 run_dir ''returnperiods'' None)
          (\<lambda>fs2. bind_err (materialize_static fs2 run_dir ''occurrence''
                             (case analysis_settings ''model_settings'' of
                                None \<Rightarrow> None | Some m \<Rightarrow> m ''event_occurrence_id''))
          (\<lambda>fs3. if path_exists fs3 (run_dir @ [''static'', ''periods.bin''])
                 then materialize_static fs3 run_dir ''periods'' None
                 else Inr fs3))))"
    by (cases "analysis_settings ''model_settings''")
       (simp_all add: prepare_model_run_inputs_def prepare_input_bin_materialize cong: if_cong)
  show ?thesis
  proof (intro conjI impI)
    show "prepare_model_run_inputs analysis_settings fs run_dir ri =
     except_oserror
       (bind_err (materialize_static fs run_dir ''events''
                    (case analysis_settings ''model_settings'' of
                       None \<Rightarrow> None | Some m \<Rightarrow> m ''event_set''))
          (\<lambda>fs1. bind_err (materialize_static fs1 run_dir ''returnperiods'' None)
          (\<lambda>fs2. bind_err (materialize_static fs2 run_dir ''occurrence''
                             (case analysis_settings ''model_settings'' of
                                None \<Rightarrow> None | Some m \<Rightarrow> m ''event_occurrence_id''))
          (\<lambda>fs3. if path_exists fs3 (run_dir @ [''static'', ''periods.bin''])
                 then materialize_static fs3 run_dir ''periods'' None
                 else Inr fs3))))"
      by (rule e)
  next
    assume a: "\<not> path_exists fs (run_dir @ [''input'', ''events.bin''])
      \<and> \<not> path_exists fs (expected_static_source run_dir ''events''
                            (case analysis_settings ''model_settings'' of
                               None \<Rightarrow> None | Some m \<Rightarrow> m ''event_set''))"
    then have "materialize_static fs run_dir ''events''
                    (case analysis_settings ''model_settings'' of
                       None \<Rightarrow> None | Some m \<Rightarrow> m ''event_set'')
       = Inl (OasisException
                  (''Could not find events data file: ''
                     @ path_str (expected_static_source run_dir ''events''
                                  (case analysis_settings ''model_settings'' of
                                     None \<Rightarrow> None | Some m \<Rightarrow> m ''event_set''))))"
      by (simp add: materialize_static_def)
    then show "prepare_model_run_inputs analysis_settings fs run_dir ri =
           Inl (OasisException
                  (''Could not find events data file: ''
                     @ path_str (expected_static_source run_dir ''events''
                                  (case analysis_settings ''model_settings'' of
                                     None \<Rightarrow> None | Some m \<Rightarrow> m ''event_set''))))"
      unfolding e by (simp add: bind_err_def except_oserror_def)
  qed
qed

theorem prepare_model_run_inputs_static_source_witness:
  "prepare_model_run_inputs [''model_settings'' \<mapsto> [''event_set'' \<mapsto> ''Historical Set'']]
     [([''run''], Dir), ([''run'', ''input''], Dir), ([''run'', ''static''], Dir),
      ([''run'', ''static'', ''events.bin''], File (Raw ''e''))]
     [''run''] False
   = Inl (OasisException
       ''Could not find events data file: /run/static/events_historical_set.bin'')"
proof -
  let ?as = "[''model_settings'' \<mapsto> [''event_set'' \<mapsto> ''Historical Set'']]"
  let ?fs = "[([''run''], Dir), ([''run'', ''input''], Dir), ([''run'', ''static''], Dir),
      ([''run'', ''static'', ''events.bin''], File (Raw ''e''))]"
  have f: "format_setting ''Historical Set'' = ''historical_set''"
    by (simp add: format_setting_def lower_char_def)
  have s: "expected_static_source [''run''] ''events''
             (case ?as ''model_settings'' of None \<Rightarrow> None | Some m \<Rightarrow> m ''event_set'')
           = [''run'', ''static'', ''events_historical_set.bin'']"
    by (simp add: expected_static_source_def f)
  have a: "\<not> path_exists ?fs ([''run''] @ [''input'', ''events.bin''])
      \<and> \<not> path_exists ?fs (expected_static_source [''run''] ''events''
                            (case ?as ''model_settings'' of None \<Rightarrow> None | Some m \<Rightarrow> m ''event_set''))"
    unfolding s by (simp add: fs_eval)
  from prepare_model_run_inputs_static_source[of ?as ?fs "[''run'']" False] a
  have "prepare_model_run_inputs ?as ?fs [''run''] False =
           Inl (OasisException
                  (''Could not find events data file: ''
                     @ path_str (expected_static_source [''run''] ''events''
                                  (case ?as ''model_settings'' of
                                     None \<Rightarrow> None | Some m \<Rightarrow> m ''event_set''))))"
    by blast
  then show ?thesis unfolding s by simp
qed

text \<open>
  The claim as it was stated takes \<open>static/<role>_<v>.bin\<close> for every value \<open>v\<close> that is
  set. With \<open>event_set\<close> set to the empty string that would be \<open>static/events_.bin\<close>,
  which is absent below; the code takes \<open>static/events.bin\<close> and succeeds.
\<close>

theorem prepare_model_run_inputs_empty_setting_counterexample:
  "[''event_set'' \<mapsto> ''''] ''event_set'' = Some ''''
 \<and> \<not> path_exists
       [([''run''], Dir), ([''run'', ''input''], Dir), ([''run'', ''static''], Dir),
        ([''run'', ''static'', ''events.bin''], File (Raw ''e'')),
        ([''run'', ''input'', ''returnperiods.bin''], File (Raw ''r'')),
        ([''run'', ''input'', ''occurrence.bin''], File (Raw ''o''))]
       [''run'', ''static'', ''events'' @ ''_'' @ format_setting '''' @ ''.bin'']
 \<and> prepare_model_run_inputs [''model_settings'' \<mapsto> [''event_set'' \<mapsto> '''']]
       [([''run''], Dir), ([''run'', ''input''], Dir), ([''run'', ''static''], Dir),
        ([''run'', ''static'', ''events.bin''], File (Raw ''e'')),
        ([''run'', ''input'', ''returnperiods.bin''], File (Raw ''r'')),
        ([''run'', ''input'', ''occurrence.bin''], File (Raw ''o''))]
       [''run''] False
     = Inr [([''run''], Dir), ([''run'', ''input''], Dir), ([''run'', ''static''], Dir),
        ([''run'', ''static'', ''events.bin''], File (Raw ''e'')),
        ([''run'', ''input'', ''returnperiods.bin''], File (Raw ''r'')),
        ([''run'', ''input'', ''occurrence.bin''], File (Raw ''o'')),
        ([''run'', ''input'', ''events.bin''], File (Raw ''e''))]"
  by (simp add: prepare_model_run_inputs_def prepare_input_bin_def fs_eval copyfile_def
        read_file_def write_file_def raising_def bind_err_def except_oserror_def
        format_setting_def)

section \<open>The reinsurance passes of \<open>create_binary_files\<close>\<close>














section \<open>Preparing the run directory\<close>

lemma recursion_limit_Suc: "recursion_limit = Suc 999"
  by (simp add: recursion_limit_def)

lemma copytree_unfold:
  "copytree recursion_limit fs src dst =
     bind_exc (os_listdir fs src)
       (\<lambda>names. bind_exc (makedirs fs dst)
          (\<lambda>fs1. foldl
                   (\<lambda>r n. bind_exc r
                      (\<lambda>acc. case (if isdir acc (src @ [n])
                                   then copytree 999 acc (src @ [n]) (dst @ [n])
                                   else copy2 acc (src @ [n]) (dst @ [n])) of
                               Inl e \<Rightarrow>
                                 Inl (if is_oserror e
                                      then ShutilError (''errors while copying '' @ path_str src)
                                      else e)
                             | Inr acc' \<Rightarrow> Inr acc'))
                   (Inr fs1) names))"
  by (simp only: recursion_limit_Suc copytree.simps)

lemmas dir_eval = prepare_model_run_directory_def mkdir_p_def mkdir_def bind_exc_def
  tarfile_open_def read_file_def makedirs_def write_file_def os_listdir_def listdir_def
  move_def os_rename_def rename_tree_def symlink_def copytree_unfold copy2_def copyfile_def
  glob_def glob1_def glob0_def fnmatch_def has_magic_def ishidden_def raising_def
  except_oserror_def errno_at_def Let_def






text \<open>
  Claim C7 has the entry that could not be linked copied to \<open>static/<entry>\<close>. The call
  in the code copies the whole source directory there instead, once for every entry.
  Below, on a platform without symbolic links, \<open>static/a.bin\<close> and \<open>static/b.bin\<close> each
  become a directory that holds a copy of both files of the model data, where the claim
  and the docstring have \<open>static\<close> hold a copy of each.
\<close>

theorem prepare_model_run_directory_copies_whole_source:
  "prepare_model_run_directory False
     [([''model''], Dir), ([''model'', ''a.bin''], File (Raw ''a'')),
      ([''model'', ''b.bin''], File (Raw ''b''))]
     [''run''] None False None (Some [''model'']) None
   = Inr [([''model''], Dir), ([''model'', ''a.bin''], File (Raw ''a'')),
      ([''model'', ''b.bin''], File (Raw ''b'')), ([''run''], Dir),
      ([''run'', ''fifo''], Dir), ([''run'', ''output''], Dir),
      ([''run'', ''static''], Dir), ([''run'', ''work''], Dir),
      ([''run'', ''input''], Dir), ([''run'', ''input'', ''csv''], Dir),
      ([''run'', ''static'', ''a.bin''], Dir),
      ([''run'', ''static'', ''a.bin'', ''a.bin''], File (Raw ''a'')),
      ([''run'', ''static'', ''a.bin'', ''b.bin''], File (Raw ''b'')),
      ([''run'', ''static'', ''b.bin''], Dir),
      ([''run'', ''static'', ''b.bin'', ''a.bin''], File (Raw ''a'')),
      ([''run'', ''static'', ''b.bin'', ''b.bin''], File (Raw ''b''))]"
  by (simp add: dir_eval fs_eval)

section \<open>Cleaning up\<close>













section \<open>The reinsurance flag of \<open>prepare_model_run_inputs\<close>\<close>







end
